theory Spec2Isabelle
  imports Complex_Main
begin

section \<open>JavaScript built-ins used by breakPointManager.js\<close>

text \<open>
  Strings are lists of \<^typ>\<open>char\<close> (code units below 256). A Number is \<open>NaN\<close>, one of the
  two infinities, or a finite value. A Number handed to the manager by its caller is
  represented when it is integer-valued (type \<open>int number\<close>, meant for magnitudes below
  \<open>10^21\<close>, where Number::toString prints plain decimal digits; \<open>-0\<close> is \<open>Finite 0\<close>);
  the result of the numeric coercion \<open>+bp\<close> is a \<open>rat number\<close>, carrying the
  mathematical value of the literal (rounding to binary64 is not represented).
\<close>

datatype 'a number = NaN | PosInfinity | NegInfinity | Finite 'a

text \<open>The values the manager is documented to take: \<open>{String|Number}\<close>.\<close>

datatype primitive = Str string | Num "int number"

text \<open>
  The argument of \<open>addBreakPoints\<close>: a string or a number (\<open>typeof bp\<close> is \<open>'string'\<close> or
  \<open>'number'\<close>), an array of such (\<open>bp instanceof Array\<close>), or anything else.
\<close>

datatype argument = Single primitive | Array "primitive list" | Other

subsection \<open>White space and digits\<close>

definition isWhiteSpace :: "char \<Rightarrow> bool" where
  "isWhiteSpace c =
     (c = CHR 0x09 \<or> c = CHR 0x0A \<or> c = CHR 0x0B \<or> c = CHR 0x0C \<or> c = CHR 0x0D \<or>
      c = CHR 0x20 \<or> c = CHR 0xA0)"

definition digitValue :: "char \<Rightarrow> nat option" where
  "digitValue c = map_of
     [(CHR ''0'', 0), (CHR ''1'', 1), (CHR ''2'', 2), (CHR ''3'', 3), (CHR ''4'', 4),
      (CHR ''5'', 5), (CHR ''6'', 6), (CHR ''7'', 7), (CHR ''8'', 8), (CHR ''9'', 9),
      (CHR ''a'', 10), (CHR ''b'', 11), (CHR ''c'', 12), (CHR ''d'', 13), (CHR ''e'', 14),
      (CHR ''f'', 15), (CHR ''A'', 10), (CHR ''B'', 11), (CHR ''C'', 12), (CHR ''D'', 13),
      (CHR ''E'', 14), (CHR ''F'', 15)] c"

definition isDigitIn :: "nat \<Rightarrow> char \<Rightarrow> bool" where
  "isDigitIn radix c = (case digitValue c of None \<Rightarrow> False | Some d \<Rightarrow> d < radix)"

definition allDigits :: "nat \<Rightarrow> string \<Rightarrow> bool" where
  "allDigits radix cs = (cs \<noteq> [] \<and> list_all (isDigitIn radix) cs)"

definition radixValue :: "nat \<Rightarrow> string \<Rightarrow> nat" where
  "radixValue radix cs =
     foldl (\<lambda>a c. a * radix + (case digitValue c of None \<Rightarrow> 0 | Some d \<Rightarrow> d)) 0 cs"

subsection \<open>ToNumber applied to a string (the unary plus of \<open>+bp\<close>)\<close>

definition trimWhiteSpace :: "string \<Rightarrow> string" where
  "trimWhiteSpace s = rev (dropWhile isWhiteSpace (rev (dropWhile isWhiteSpace s)))"

definition splitSign :: "string \<Rightarrow> bool \<times> string" where
  "splitSign s =
     (case s of
        [] \<Rightarrow> (False, [])
      | c # cs \<Rightarrow>
          if c = CHR ''-'' then (True, cs)
          else if c = CHR ''+'' then (False, cs)
          else (False, s))"

text \<open>The optional exponent part of a decimal literal; \<open>None\<close> is a syntax error.\<close>

definition exponentPart :: "string \<Rightarrow> int option" where
  "exponentPart s =
     (case s of
        [] \<Rightarrow> Some 0
      | c # cs \<Rightarrow>
          if c = CHR ''e'' \<or> c = CHR ''E'' then
            (case splitSign cs of
               (neg, ds) \<Rightarrow>
                 if allDigits 10 ds
                 then Some (if neg then - int (radixValue 10 ds) else int (radixValue 10 ds))
                 else None)
          else None)"

definition pow10 :: "int \<Rightarrow> rat" where
  "pow10 e = (if 0 \<le> e then 10 ^ nat e else 1 / 10 ^ nat (- e))"

definition fractionPart :: "string \<Rightarrow> string \<times> string" where
  "fractionPart r =
     (case r of
        [] \<Rightarrow> ([], [])
      | c # cs \<Rightarrow>
          if c = CHR ''.'' then (takeWhile (isDigitIn 10) cs, dropWhile (isDigitIn 10) cs)
          else ([], r))"

definition unsignedDecimal :: "string \<Rightarrow> rat number" where
  "unsignedDecimal s =
     (if s = ''Infinity'' then PosInfinity
      else
        (let ip = takeWhile (isDigitIn 10) s in
         case fractionPart (dropWhile (isDigitIn 10) s) of
           (fp, r) \<Rightarrow>
             if ip = [] \<and> fp = [] then NaN
             else
               (case exponentPart r of
                  None \<Rightarrow> NaN
                | Some e \<Rightarrow>
                    Finite (of_nat (radixValue 10 (ip @ fp)) * pow10 (e - int (length fp))))))"

definition radixPrefix :: "string \<Rightarrow> (nat \<times> string) option" where
  "radixPrefix s =
     (case s of
        z # x # ds \<Rightarrow>
          if z = CHR ''0'' then
            (if x = CHR ''x'' \<or> x = CHR ''X'' then Some (16, ds)
             else if x = CHR ''o'' \<or> x = CHR ''O'' then Some (8, ds)
             else if x = CHR ''b'' \<or> x = CHR ''B'' then Some (2, ds)
             else None)
          else None
      | _ \<Rightarrow> None)"

fun negate :: "rat number \<Rightarrow> rat number" where
  "negate NaN = NaN"
| "negate PosInfinity = NegInfinity"
| "negate NegInfinity = PosInfinity"
| "negate (Finite q) = Finite (- q)"

definition stringToNumber :: "string \<Rightarrow> rat number" where
  "stringToNumber s =
     (let t = trimWhiteSpace s in
      if t = [] then Finite 0
      else
        (case radixPrefix t of
           Some (radix, ds) \<Rightarrow>
             if allDigits radix ds then Finite (of_nat (radixValue radix ds)) else NaN
         | None \<Rightarrow>
             (case splitSign t of
                (neg, u) \<Rightarrow> if neg then negate (unsignedDecimal u) else unsignedDecimal u)))"

fun toNumber :: "primitive \<Rightarrow> rat number" where
  "toNumber (Str s) = stringToNumber s"
| "toNumber (Num NaN) = NaN"
| "toNumber (Num PosInfinity) = PosInfinity"
| "toNumber (Num NegInfinity) = NegInfinity"
| "toNumber (Num (Finite n)) = Finite (of_int n)"

definition isNaN :: "rat number \<Rightarrow> bool" where
  "isNaN x = (x = NaN)"

subsection \<open>ToString (the concatenation \<open>''+bp\<close>)\<close>

definition digitChar :: "nat \<Rightarrow> char" where
  "digitChar d = ''0123456789'' ! d"

fun natToString :: "nat \<Rightarrow> string" where
  "natToString n = (if n < 10 then [digitChar n] else natToString (n div 10) @ [digitChar (n mod 10)])"

declare natToString.simps [simp del]

fun toString :: "primitive \<Rightarrow> string" where
  "toString (Str s) = s"
| "toString (Num NaN) = ''NaN''"
| "toString (Num PosInfinity) = ''Infinity''"
| "toString (Num NegInfinity) = ''-Infinity''"
| "toString (Num (Finite n)) =
     (if n < 0 then CHR ''-'' # natToString (nat (- n)) else natToString (nat n))"

subsection \<open>Relational comparison of Numbers\<close>

text \<open>\<open>x < y\<close> on Numbers; a comparison with \<open>NaN\<close> is false.\<close>

fun isLessThan :: "rat number \<Rightarrow> rat number \<Rightarrow> bool" where
  "isLessThan NaN y = False"
| "isLessThan x NaN = False"
| "isLessThan PosInfinity y = False"
| "isLessThan x NegInfinity = False"
| "isLessThan NegInfinity y = True"
| "isLessThan x PosInfinity = True"
| "isLessThan (Finite a) (Finite b) = (a < b)"

subsection \<open>indexOf and replace\<close>

definition startsWith :: "'a list \<Rightarrow> 'a list \<Rightarrow> bool" where
  "startsWith s pat = (take (length pat) s = pat)"

text \<open>\<open>String.prototype.indexOf\<close>: the first position of \<open>pat\<close> in \<open>s\<close>, or \<open>-1\<close>.\<close>

fun stringIndexOf :: "string \<Rightarrow> string \<Rightarrow> int" where
  "stringIndexOf [] pat = (if pat = [] then 0 else - 1)"
| "stringIndexOf (c # cs) pat =
     (if startsWith (c # cs) pat then 0
      else (let i = stringIndexOf cs pat in if i = - 1 then - 1 else i + 1))"

text \<open>
  \<open>String.prototype.replace\<close> with a string pattern: only the first occurrence of \<open>pat\<close>
  is replaced. (The replacements used by the program contain no \<open>$\<close>.)
\<close>

fun stringReplace :: "string \<Rightarrow> string \<Rightarrow> string \<Rightarrow> string" where
  "stringReplace [] pat rep = (if pat = [] then rep else [])"
| "stringReplace (c # cs) pat rep =
     (if startsWith (c # cs) pat then rep @ drop (length pat) (c # cs)
      else c # stringReplace cs pat rep)"

text \<open>\<open>s.replace(/\s+/g, ' ')\<close>: every maximal run of white space becomes one space.\<close>

function collapseWhiteSpace :: "string \<Rightarrow> string" where
  "collapseWhiteSpace [] = []"
| "collapseWhiteSpace (c # cs) =
     (if isWhiteSpace c then CHR '' '' # collapseWhiteSpace (dropWhile isWhiteSpace cs)
      else c # collapseWhiteSpace cs)"
  by pat_completeness auto
termination
  by (relation "measure length") (auto simp: length_dropWhile_le less_Suc_eq_le)

text \<open>\<open>Array.prototype.indexOf\<close>: the first index of \<open>x\<close> in \<open>xs\<close>, or \<open>-1\<close>.\<close>

fun arrayIndexOf :: "'a list \<Rightarrow> 'a \<Rightarrow> int" where
  "arrayIndexOf [] x = - 1"
| "arrayIndexOf (y # ys) x =
     (if y = x then 0 else (let i = arrayIndexOf ys x in if i = - 1 then - 1 else i + 1))"

section \<open>The breakpoint manager\<close>

text \<open>
  The module's state: its private array \<open>breakPoints\<close>, and the two things it reads and
  writes in the document, the root element's \<open>clientWidth\<close> (an integer number of
  pixels) and the \<open>className\<close> of the html element. A document always has its root
  element, so the lookups of \<open>updateClasses\<close> do not fail.
\<close>

record state =
  breakPoints :: "string list"
  clientWidth :: int
  className :: string

text \<open>The three fields of the constant \<open>PREFIXES\<close>.\<close>

definition LESS_THAN :: string where "LESS_THAN = ''lt''"
definition GREATER_THAN :: string where "GREATER_THAN = ''gt''"
definition EQUAL :: string where "EQUAL = ''e''"

definition hasBreakPoint :: "primitive \<Rightarrow> state \<Rightarrow> bool" where
  "hasBreakPoint bp s = (arrayIndexOf (breakPoints s) (toString bp) \<noteq> - 1)"

definition addUniqueBreakPoint :: "primitive \<Rightarrow> state \<Rightarrow> state" where
  "addUniqueBreakPoint bp s =
     (if \<not> isNaN (toNumber bp) \<and> \<not> hasBreakPoint bp s
      then s\<lparr>breakPoints := breakPoints s @ [toString bp]\<rparr>
      else s)"

text \<open>
  The first loop of \<open>updateClasses\<close>: the lists \<open>classesToAdd\<close> and \<open>classesToRemove\<close>,
  grown by \<open>push\<close> for each breakpoint in turn. The comparisons \<open>windowWidth > bp\<close> and
  \<open>windowWidth < bp\<close> are between a Number and a String, so the string is coerced.
\<close>

fun classLists :: "int \<Rightarrow> string list \<Rightarrow> string list \<times> string list \<Rightarrow> string list \<times> string list" where
  "classLists windowWidth [] (classesToAdd, classesToRemove) = (classesToAdd, classesToRemove)"
| "classLists windowWidth (bp # bps) (classesToAdd, classesToRemove) =
     (if isLessThan (stringToNumber bp) (Finite (of_int windowWidth)) then
        classLists windowWidth bps
          (classesToAdd @ [GREATER_THAN @ bp], classesToRemove @ [LESS_THAN @ bp, EQUAL @ bp])
      else if isLessThan (Finite (of_int windowWidth)) (stringToNumber bp) then
        classLists windowWidth bps
          (classesToAdd @ [LESS_THAN @ bp], classesToRemove @ [GREATER_THAN @ bp, EQUAL @ bp])
      else
        classLists windowWidth bps
          (classesToAdd @ [EQUAL @ bp], classesToRemove @ [LESS_THAN @ bp, GREATER_THAN @ bp]))"

text \<open>The second loop: \<open>currentClasses = currentClasses.replace(classesToRemove[i], '')\<close>.\<close>

fun removeClasses :: "string list \<Rightarrow> string \<Rightarrow> string" where
  "removeClasses [] currentClasses = currentClasses"
| "removeClasses (c # cs) currentClasses = removeClasses cs (stringReplace currentClasses c [])"

text \<open>The third loop: a class is appended when \<open>indexOf\<close> does not find it.\<close>

fun addClasses :: "string list \<Rightarrow> string \<Rightarrow> string" where
  "addClasses [] currentClasses = currentClasses"
| "addClasses (c # cs) currentClasses =
     (if stringIndexOf currentClasses c = - 1
      then addClasses cs (currentClasses @ CHR '' '' # c)
      else addClasses cs currentClasses)"

definition updateClasses :: "state \<Rightarrow> state" where
  "updateClasses s =
     (case classLists (clientWidth s) (breakPoints s) ([], []) of
        (classesToAdd, classesToRemove) \<Rightarrow>
          s\<lparr>className :=
              collapseWhiteSpace (addClasses classesToAdd (removeClasses classesToRemove (className s)))\<rparr>)"

text \<open>The loop of \<open>addBreakPoints\<close> over an array argument.\<close>

fun addEach :: "primitive list \<Rightarrow> state \<Rightarrow> state" where
  "addEach [] s = s"
| "addEach (bp # bps) s = addEach bps (addUniqueBreakPoint bp s)"

fun addBreakPoints :: "argument \<Rightarrow> state \<Rightarrow> state" where
  "addBreakPoints (Single bp) s = updateClasses (addUniqueBreakPoint bp s)"
| "addBreakPoints (Array bps) s = updateClasses (addEach bps s)"
| "addBreakPoints Other s = updateClasses s"

text \<open>
  The module starts with an empty array of breakpoints, in a document of some width and
  some class attribute. (\<open>beginResizeListener\<close> then calls \<open>updateClasses\<close> once, the
  call \<open>UpdateClasses\<close> below, and installs the listener.)
\<close>

definition initial :: "int \<Rightarrow> string \<Rightarrow> state" where
  "initial w cls = \<lparr>breakPoints = [], clientWidth = w, className = cls\<rparr>"

text \<open>
  What the page does around the module: the listener installed by \<open>beginResizeListener\<close>
  runs \<open>updateClasses\<close> on every resize (the window has a new width by then), and the
  page may call the three public functions. \<open>hasBreakPoint\<close> only returns a boolean.
\<close>

datatype call = AddBreakPoints argument | HasBreakPoint primitive | UpdateClasses | Resize int

fun step :: "call \<Rightarrow> state \<Rightarrow> state" where
  "step (AddBreakPoints a) s = addBreakPoints a s"
| "step (HasBreakPoint bp) s = s"
| "step UpdateClasses s = updateClasses s"
| "step (Resize w) s = updateClasses (s\<lparr>clientWidth := w\<rparr>)"

fun run :: "call list \<Rightarrow> state \<Rightarrow> state" where
  "run [] s = s"
| "run (c # cs) s = run cs (step c s)"

section \<open>Notions used to state the properties\<close>

text \<open>The global function \<open>isFinite\<close>: neither \<open>NaN\<close> nor an infinity.\<close>

definition isFinite :: "rat number \<Rightarrow> bool" where
  "isFinite x = (case x of Finite q \<Rightarrow> True | _ \<Rightarrow> False)"

text \<open>
  What one turn of the first loop of \<open>updateClasses\<close> pushes for the breakpoint \<open>bp\<close>:
  the class to add and the two classes to remove.
\<close>

definition classToAdd :: "int \<Rightarrow> string \<Rightarrow> string" where
  "classToAdd windowWidth bp =
     (if isLessThan (stringToNumber bp) (Finite (of_int windowWidth)) then GREATER_THAN @ bp
      else if isLessThan (Finite (of_int windowWidth)) (stringToNumber bp) then LESS_THAN @ bp
      else EQUAL @ bp)"

definition classesToRemove :: "int \<Rightarrow> string \<Rightarrow> string list" where
  "classesToRemove windowWidth bp =
     (if isLessThan (stringToNumber bp) (Finite (of_int windowWidth))
      then [LESS_THAN @ bp, EQUAL @ bp]
      else if isLessThan (Finite (of_int windowWidth)) (stringToNumber bp)
      then [GREATER_THAN @ bp, EQUAL @ bp]
      else [LESS_THAN @ bp, GREATER_THAN @ bp])"

subsection \<open>The class attribute as a set of tokens\<close>

text \<open>
  The data model of the specification reads the class attribute as the tokens that white
  space separates. \<open>classTokens\<close> lists them in order: it skips white space and takes
  each maximal run of other characters. \<open>relationClasses\<close> lists the classes the manager
  may write for a set of breakpoints, and \<open>noWhiteSpace\<close> holds of a string without a
  white-space character.
\<close>

function classTokens :: "string \<Rightarrow> string list" where
  "classTokens [] = []"
| "classTokens (c # cs) =
     (if isWhiteSpace c then classTokens cs
      else (c # takeWhile (\<lambda>x. \<not> isWhiteSpace x) cs) #
           classTokens (dropWhile (\<lambda>x. \<not> isWhiteSpace x) cs))"
  by pat_completeness auto
termination
  by (relation "measure length") (auto simp: length_dropWhile_le less_Suc_eq_le)


definition noWhiteSpace :: "string \<Rightarrow> bool" where
  "noWhiteSpace s = list_all (\<lambda>c. \<not> isWhiteSpace c) s"

section \<open>Properties of the breakpoint array\<close>

lemma arrayIndexOf_lower: "- 1 \<le> arrayIndexOf xs x"
  by (induction xs) (auto simp: Let_def)

lemma arrayIndexOf_found: "arrayIndexOf xs x \<noteq> - 1 \<longleftrightarrow> x \<in> set xs"
proof (induction xs)
  case Nil
  show ?case by simp
next
  case (Cons y ys)
  have "arrayIndexOf ys x + 1 \<noteq> - 1"
    using arrayIndexOf_lower [of ys x] by arith
  with Cons show ?case by (auto simp: Let_def)
qed

lemma hasBreakPoint_iff: "hasBreakPoint bp s \<longleftrightarrow> toString bp \<in> set (breakPoints s)"
  by (simp add: hasBreakPoint_def arrayIndexOf_found)

lemma breakPoints_addUnique:
  "breakPoints (addUniqueBreakPoint bp s) =
     (if toNumber bp \<noteq> NaN \<and> toString bp \<notin> set (breakPoints s)
      then breakPoints s @ [toString bp] else breakPoints s)"
  by (simp add: addUniqueBreakPoint_def hasBreakPoint_iff isNaN_def)

lemma document_addUnique:
  "clientWidth (addUniqueBreakPoint bp s) = clientWidth s"
  "className (addUniqueBreakPoint bp s) = className s"
  by (simp_all add: addUniqueBreakPoint_def)

lemma breakPoints_updateClasses: "breakPoints (updateClasses s) = breakPoints s"
  by (simp add: updateClasses_def split: prod.split)

lemma clientWidth_updateClasses: "clientWidth (updateClasses s) = clientWidth s"
  by (simp add: updateClasses_def split: prod.split)

lemma distinct_addUnique:
  "distinct (breakPoints s) \<Longrightarrow> distinct (breakPoints (addUniqueBreakPoint bp s))"
  by (simp add: breakPoints_addUnique)

lemma extends_addUnique: "\<exists>ys. breakPoints (addUniqueBreakPoint bp s) = breakPoints s @ ys"
  by (simp add: breakPoints_addUnique)

lemma distinct_addEach:
  "distinct (breakPoints s) \<Longrightarrow> distinct (breakPoints (addEach bps s))"
  by (induction bps arbitrary: s) (simp_all add: distinct_addUnique)

lemma extends_addEach: "\<exists>ys. breakPoints (addEach bps s) = breakPoints s @ ys"
proof (induction bps arbitrary: s)
  case Nil
  show ?case by simp
next
  case (Cons bp bps)
  obtain ys where "breakPoints (addUniqueBreakPoint bp s) = breakPoints s @ ys"
    using extends_addUnique by blast
  moreover obtain zs where
    "breakPoints (addEach bps (addUniqueBreakPoint bp s)) =
       breakPoints (addUniqueBreakPoint bp s) @ zs"
    using Cons.IH by blast
  ultimately show ?case by simp
qed

lemma distinct_addBreakPoints:
  "distinct (breakPoints s) \<Longrightarrow> distinct (breakPoints (addBreakPoints a s))"
  by (cases a) (simp_all add: breakPoints_updateClasses distinct_addUnique distinct_addEach)

lemma extends_addBreakPoints: "\<exists>ys. breakPoints (addBreakPoints a s) = breakPoints s @ ys"
  by (cases a) (simp_all add: breakPoints_updateClasses extends_addUnique extends_addEach)

lemma distinct_step: "distinct (breakPoints s) \<Longrightarrow> distinct (breakPoints (step c s))"
  by (cases c) (simp_all add: breakPoints_updateClasses distinct_addBreakPoints)

lemma extends_step: "\<exists>ys. breakPoints (step c s) = breakPoints s @ ys"
  by (cases c) (simp_all add: breakPoints_updateClasses extends_addBreakPoints)

lemma distinct_run: "distinct (breakPoints s) \<Longrightarrow> distinct (breakPoints (run cs s))"
  by (induction cs arbitrary: s) (simp_all add: distinct_step)

lemma extends_run: "\<exists>ys. breakPoints (run cs s) = breakPoints s @ ys"
proof (induction cs arbitrary: s)
  case Nil
  show ?case by simp
next
  case (Cons c cs)
  obtain ys where "breakPoints (step c s) = breakPoints s @ ys"
    using extends_step by blast
  moreover obtain zs where "breakPoints (run cs (step c s)) = breakPoints (step c s) @ zs"
    using Cons.IH by blast
  ultimately show ?case by simp
qed



lemma addEach_present:
  "\<forall>bp \<in> set bps. toNumber bp \<noteq> NaN \<longrightarrow> toString bp \<in> set (breakPoints s) \<Longrightarrow>
     breakPoints (addEach bps s) = breakPoints s"
  by (induction bps arbitrary: s) (auto simp: breakPoints_addUnique)

lemma addEach_skips:
  "\<forall>bp \<in> set bps. toNumber bp = NaN \<Longrightarrow> breakPoints (addEach bps s) = breakPoints s"
  by (rule addEach_present) simp


section \<open>Properties of the coercions\<close>


















section \<open>Properties of the class lists and of the string operations\<close>

lemma classLists_eq:
  "classLists w bps (adds, rems) =
     (adds @ map (classToAdd w) bps, rems @ concat (map (classesToRemove w) bps))"
  by (induction bps arbitrary: adds rems) (simp_all add: classToAdd_def classesToRemove_def)

lemma removeClasses_foldl:
  "removeClasses ts s = foldl (\<lambda>cur t. stringReplace cur t []) s ts"
  by (induction ts arbitrary: s) simp_all

lemma stringIndexOf_lower: "- 1 \<le> stringIndexOf s t"
  by (induction s) (auto simp: Let_def)

lemma stringIndexOf_Cons:
  "stringIndexOf (c # cs) t = - 1 \<longleftrightarrow> \<not> startsWith (c # cs) t \<and> stringIndexOf cs t = - 1"
  using stringIndexOf_lower [of cs t] by (auto simp: Let_def)

lemma stringReplace_absent: "stringIndexOf s t = - 1 \<Longrightarrow> stringReplace s t r = s"
proof (induction s)
  case Nil
  then show ?case by (simp split: if_splits)
next
  case (Cons c cs)
  then show ?case
    unfolding stringIndexOf_Cons by simp
qed

lemma stringReplace_first:
  "stringIndexOf s t \<noteq> - 1 \<Longrightarrow>
     stringReplace s t r =
       take (nat (stringIndexOf s t)) s @ r @ drop (nat (stringIndexOf s t) + length t) s \<and>
     startsWith (drop (nat (stringIndexOf s t)) s) t \<and>
     (\<forall>j < nat (stringIndexOf s t). \<not> startsWith (drop j s) t)"
proof (induction s)
  case Nil
  then show ?case
    by (simp add: startsWith_def split: if_splits)
next
  case (Cons c cs)
  show ?case
  proof (cases "startsWith (c # cs) t")
    case True
    then show ?thesis by simp
  next
    case False
    with Cons.prems have found: "stringIndexOf cs t \<noteq> - 1"
      by (auto simp: Let_def split: if_splits)
    then have pos: "0 \<le> stringIndexOf cs t"
      using stringIndexOf_lower [of cs t] by arith
    then have idx: "nat (stringIndexOf (c # cs) t) = Suc (nat (stringIndexOf cs t))"
      using False found by (simp add: Let_def nat_add_distrib)
    have first: "\<not> startsWith (drop j (c # cs)) t" if "j < Suc (nat (stringIndexOf cs t))" for j
    proof (cases j)
      case 0
      with False show ?thesis by simp
    next
      case (Suc k)
      with that Cons.IH [OF found] show ?thesis by simp
    qed
    from Cons.IH [OF found] False first show ?thesis
      unfolding idx by simp
  qed
qed


lemma document_addEach:
  "clientWidth (addEach bps s) = clientWidth s"
  "className (addEach bps s) = className s"
  by (induction bps arbitrary: s) (simp_all add: document_addUnique)

lemma classToAdd_Finite:
  "stringToNumber b = Finite q \<Longrightarrow>
     classToAdd w b =
       (if q < of_int w then ''gt'' @ b else if of_int w < q then ''lt'' @ b else ''e'' @ b)"
  by (simp add: classToAdd_def GREATER_THAN_def LESS_THAN_def EQUAL_def)

lemma classesToRemove_Finite:
  "stringToNumber b = Finite q \<Longrightarrow>
     classesToRemove w b =
       (if q < of_int w then [''lt'' @ b, ''e'' @ b]
        else if of_int w < q then [''gt'' @ b, ''e'' @ b]
        else [''lt'' @ b, ''gt'' @ b])"
  by (simp add: classesToRemove_def GREATER_THAN_def LESS_THAN_def EQUAL_def)

lemma className_updateClasses_lists:
  "classLists (clientWidth s) (breakPoints s) ([], []) = (adds, rems) \<Longrightarrow>
     className (updateClasses s) =
       collapseWhiteSpace (addClasses adds (removeClasses rems (className s)))"
  by (simp add: updateClasses_def)

section \<open>Properties of the class tokens\<close>





lemma classTokens_nonempty:
  "s \<noteq> [] \<Longrightarrow> \<not> isWhiteSpace (hd s) \<Longrightarrow> classTokens s \<noteq> []"
  by (cases s) auto









lemma noWhiteSpace_append [simp]:
  "noWhiteSpace (xs @ ys) \<longleftrightarrow> noWhiteSpace xs \<and> noWhiteSpace ys"
  by (simp add: noWhiteSpace_def)


















section \<open>Claims about the breakpoint array\<close>

text \<open>
  C8. The array of breakpoints never holds the same string twice: it is empty when the
  module is loaded, every call (\<open>addBreakPoints\<close>, \<open>hasBreakPoint\<close>, \<open>updateClasses\<close>, the
  resize listener) keeps its entries distinct, and every call leaves the old array as a
  prefix of the new one, so entries are only ever appended, never removed or changed.
\<close>

theorem breakPoints_unique_append_only:
  "breakPoints (initial w cls) = [] \<and>
   distinct (breakPoints (run cs (initial w cls))) \<and>
   (distinct (breakPoints s) \<longrightarrow> distinct (breakPoints (step c s))) \<and>
   (\<exists>ys. breakPoints (step c s) = breakPoints s @ ys) \<and>
   breakPoints (updateClasses s) = breakPoints s"
proof -
  have "distinct (breakPoints (initial w cls))"
    by (simp add: initial_def)
  then have "distinct (breakPoints (run cs (initial w cls)))"
    by (rule distinct_run)
  then show ?thesis
    by (simp add: initial_def distinct_step extends_step breakPoints_updateClasses)
qed

theorem breakPoints_unique_append_only_witness:
  "distinct (breakPoints (initial 500 '''')) \<and>
   distinct (breakPoints (step (AddBreakPoints (Array [Str ''768'', Num (Finite 768)]))
     (initial 500 ''''))) \<and>
   distinct (breakPoints (run [AddBreakPoints (Single (Str ''768'')), Resize 800,
     HasBreakPoint (Num (Finite 768)), AddBreakPoints (Single (Num (Finite 768)))]
     (initial 500 '''')))"
proof -
  have h: "distinct (breakPoints (initial 500 ''''))"
    by (simp add: initial_def)
  from breakPoints_unique_append_only
    [of 500 "''''"
      "[AddBreakPoints (Single (Str ''768'')), Resize 800,
        HasBreakPoint (Num (Finite 768)), AddBreakPoints (Single (Num (Finite 768)))]"
      "initial 500 ''''" "AddBreakPoints (Array [Str ''768'', Num (Finite 768)])"]
  show ?thesis using h by blast
qed





text \<open>
  C4, as the code has it. A value whose numeric coercion is \<open>NaN\<close> is ignored without an
  error: \<open>addUniqueBreakPoint\<close> returns the state as it was, and the array of breakpoints
  is the same after \<open>addBreakPoints\<close>, for a single value, for an array of such values
  and for an argument that is neither a string, a number nor an array. The test is
  \<open>isNaN\<close>, so the two infinities are not ignored: their string form is an entry of the
  array afterwards.
\<close>

theorem nan_ignored:
  "(isNaN (toNumber v) \<longrightarrow>
      addUniqueBreakPoint v s = s \<and>
      breakPoints (addBreakPoints (Single v) s) = breakPoints s) \<and>
   ((\<forall>v \<in> set vs. isNaN (toNumber v)) \<longrightarrow>
      breakPoints (addBreakPoints (Array vs) s) = breakPoints s) \<and>
   breakPoints (addBreakPoints Other s) = breakPoints s \<and>
   (\<not> isNaN (toNumber v) \<longrightarrow>
      toString v \<in> set (breakPoints (addBreakPoints (Single v) s)))"
  by (simp add: addUniqueBreakPoint_def breakPoints_updateClasses breakPoints_addUnique
      addEach_skips isNaN_def hasBreakPoint_iff)

theorem nan_ignored_witness:
  "isNaN (toNumber (Str ''abc'')) \<and>
   addUniqueBreakPoint (Str ''abc'') (initial 1024 '''') = initial 1024 '''' \<and>
   breakPoints (addBreakPoints (Single (Str ''abc'')) (initial 1024 '''')) = [] \<and>
   breakPoints (addBreakPoints (Array [Str ''abc'', Num NaN, Str ''12px''])
     (initial 1024 '''')) = [] \<and>
   \<not> isNaN (toNumber (Num NegInfinity)) \<and>
   ''-Infinity'' \<in> set (breakPoints (addBreakPoints (Single (Num NegInfinity)) (initial 1024 '''')))"
proof -
  have h1: "isNaN (toNumber (Str ''abc''))"
    by code_simp
  have h2: "\<forall>v \<in> set [Str ''abc'', Num NaN, Str ''12px'']. isNaN (toNumber v)"
    by code_simp
  have h3: "\<not> isNaN (toNumber (Num NegInfinity))"
    by (simp add: isNaN_def)
  have h4: "breakPoints (initial 1024 '''') = []"
    by (simp add: initial_def)
  note a = nan_ignored [where v = "Str ''abc''" and s = "initial 1024 ''''"
      and vs = "[Str ''abc'', Num NaN, Str ''12px'']"]
  note b = nan_ignored [where v = "Num NegInfinity" and s = "initial 1024 ''''" and vs = "[]"]
  from a h1 have c1: "addUniqueBreakPoint (Str ''abc'') (initial 1024 '''') = initial 1024 ''''"
    and c2: "breakPoints (addBreakPoints (Single (Str ''abc'')) (initial 1024 '''')) =
      breakPoints (initial 1024 '''')"
    by blast+
  from a h2 have c3: "breakPoints (addBreakPoints (Array [Str ''abc'', Num NaN, Str ''12px''])
     (initial 1024 '''')) = breakPoints (initial 1024 '''')"
    by blast
  from b h3 have c4: "toString (Num NegInfinity) \<in>
      set (breakPoints (addBreakPoints (Single (Num NegInfinity)) (initial 1024 '''')))"
    by blast
  show ?thesis
    using h1 h3 c1 c2 c3 c4 by (simp only: h4 toString.simps simp_thms)
qed

text \<open>
  C4 as stated fails at the string \<open>"Infinity"\<close>: it is not coercible to a finite
  number, and it is appended to the empty array all the same.
\<close>

theorem not_finite_ignored_counterexample:
  "\<not> isFinite (toNumber (Str ''Infinity'')) \<and>
   breakPoints (initial 1024 '''') = [] \<and>
   breakPoints (addBreakPoints (Single (Str ''Infinity'')) (initial 1024 '''')) = [''Infinity'']"
proof -
  have h: "toNumber (Str ''Infinity'') = PosInfinity"
    by code_simp
  then show ?thesis
    by (simp add: isFinite_def initial_def breakPoints_updateClasses breakPoints_addUnique)
qed




section \<open>Claims about the class attribute\<close>

text \<open>
  C3, as the code has it. The removal phase of \<open>updateClasses\<close> takes the tokens of the
  remove-list in order and applies \<open>replace\<close> with a string pattern to the class string
  as it stands: when the token does not occur, the string is unchanged; when it occurs,
  the occurrence at the first position where it starts (the position \<open>indexOf\<close> returns)
  is cut out and everything else stays, later occurrences included.
\<close>

theorem removal_strips_first_occurrence:
  "removeClasses ts s = foldl (\<lambda>cur t. stringReplace cur t []) s ts \<and>
   (stringIndexOf s t = - 1 \<longrightarrow> stringReplace s t [] = s) \<and>
   (stringIndexOf s t \<noteq> - 1 \<longrightarrow>
      stringReplace s t [] =
        take (nat (stringIndexOf s t)) s @ drop (nat (stringIndexOf s t) + length t) s \<and>
      startsWith (drop (nat (stringIndexOf s t)) s) t \<and>
      (\<forall>j < nat (stringIndexOf s t). \<not> startsWith (drop j s) t))"
  using stringReplace_first [of s t "[]"]
  by (simp add: removeClasses_foldl stringReplace_absent)

theorem removal_strips_first_occurrence_witness:
  "stringIndexOf ''a lt5 b lt5'' ''gt5'' = - 1 \<and>
   stringReplace ''a lt5 b lt5'' ''gt5'' [] = ''a lt5 b lt5'' \<and>
   stringIndexOf ''a lt5 b lt5'' ''lt5'' \<noteq> - 1 \<and>
   stringReplace ''a lt5 b lt5'' ''lt5'' [] =
     take (nat (stringIndexOf ''a lt5 b lt5'' ''lt5'')) ''a lt5 b lt5'' @
     drop (nat (stringIndexOf ''a lt5 b lt5'' ''lt5'') + length ''lt5'') ''a lt5 b lt5'' \<and>
   stringReplace ''a lt5 b lt5'' ''lt5'' [] = ''a  b lt5''"
proof -
  have h1: "stringIndexOf ''a lt5 b lt5'' ''gt5'' = - 1"
    by code_simp
  have h2: "stringIndexOf ''a lt5 b lt5'' ''lt5'' \<noteq> - 1"
    by code_simp
  note a = removal_strips_first_occurrence
    [where s = "''a lt5 b lt5''" and t = "''gt5''" and ts = "[]"]
  note b = removal_strips_first_occurrence
    [where s = "''a lt5 b lt5''" and t = "''lt5''" and ts = "[]"]
  from a h1 have c1: "stringReplace ''a lt5 b lt5'' ''gt5'' [] = ''a lt5 b lt5''"
    by blast
  from b h2 have c2: "stringReplace ''a lt5 b lt5'' ''lt5'' [] =
     take (nat (stringIndexOf ''a lt5 b lt5'' ''lt5'')) ''a lt5 b lt5'' @
     drop (nat (stringIndexOf ''a lt5 b lt5'' ''lt5'') + length ''lt5'') ''a lt5 b lt5''"
    by blast
  have c3: "stringReplace ''a lt5 b lt5'' ''lt5'' [] = ''a  b lt5''"
    by code_simp
  from h1 h2 c1 c2 c3 show ?thesis by blast
qed

text \<open>
  C3 as stated fails on a state the module reaches by itself. With the breakpoints
  \<open>"100"\<close> and \<open>"1000"\<close> at width 50 the class attribute becomes \<open>" lt100 lt1000"\<close>. After a
  resize to 500 the remove-list holds \<open>lt100\<close>; the removal phase cuts its first
  occurrence only, and the string it leaves still contains \<open>lt100\<close> (at position 2,
  inside \<open>lt1000\<close>).
\<close>

theorem removal_leaves_occurrence_counterexample:
  "className (addBreakPoints (Array [Str ''100'', Str ''1000'']) (initial 50 '''')) =
     '' lt100 lt1000'' \<and>
   classLists 500 [''100'', ''1000''] ([], []) =
     ([''gt100'', ''lt1000''], [''lt100'', ''e100'', ''gt1000'', ''e1000'']) \<and>
   removeClasses [''lt100'', ''e100'', ''gt1000'', ''e1000''] '' lt100 lt1000'' = ''  lt1000'' \<and>
   stringIndexOf ''  lt1000'' ''lt100'' = 2"
proof -
  have n: "stringToNumber ''100'' = Finite 100" "stringToNumber ''1000'' = Finite 1000"
    by code_simp+
  let ?s = "addEach [Str ''100'', Str ''1000''] (initial 50 '''')"
  have st: "breakPoints ?s = [''100'', ''1000'']" "clientWidth ?s = 50" "className ?s = ''''"
    using n by (simp_all add: breakPoints_addUnique document_addUnique initial_def)
  have l50: "classLists 50 [''100'', ''1000''] ([], []) =
      ([''lt100'', ''lt1000''], [''gt100'', ''e100'', ''gt1000'', ''e1000''])"
    by (simp add: classLists_eq classToAdd_Finite classesToRemove_Finite n)
  have "className (updateClasses ?s) =
      collapseWhiteSpace (addClasses [''lt100'', ''lt1000'']
        (removeClasses [''gt100'', ''e100'', ''gt1000'', ''e1000''] (className ?s)))"
    by (rule className_updateClasses_lists) (simp only: st l50)
  also have "\<dots> = '' lt100 lt1000''"
    unfolding st by code_simp
  finally have c1: "className (addBreakPoints (Array [Str ''100'', Str ''1000'']) (initial 50 '''')) =
      '' lt100 lt1000''"
    by (simp only: addBreakPoints.simps)
  have c2: "classLists 500 [''100'', ''1000''] ([], []) =
      ([''gt100'', ''lt1000''], [''lt100'', ''e100'', ''gt1000'', ''e1000''])"
    by (simp add: classLists_eq classToAdd_Finite classesToRemove_Finite n)
  have c3: "removeClasses [''lt100'', ''e100'', ''gt1000'', ''e1000''] '' lt100 lt1000'' =
      ''  lt1000''"
    by code_simp
  have c4: "stringIndexOf ''  lt1000'' ''lt100'' = 2"
    by code_simp
  from c1 c2 c3 c4 show ?thesis by blast
qed











end
